theory Spec2Isabelle
  imports Main
begin

section \<open>Python values, settings and the surroundings of the exporter\<close>

text \<open>
  The values a Scrapy setting, a URI parameter or an attribute of the exporter can hold,
  as far as \<^verbatim>\<open>chunkexports.py\<close> looks at them: \<^verbatim>\<open>None\<close>, an
  integer or a string.
\<close>

datatype pyval = PNone | PInt int | PStr string

text \<open>Python's truth value: \<^verbatim>\<open>not value\<close> is its negation.\<close>

fun truthy :: "pyval \<Rightarrow> bool" where
  "truthy PNone = False"
| "truthy (PInt n) = (n \<noteq> 0)"
| "truthy (PStr s) = (s \<noteq> [])"

text \<open>
  \<^verbatim>\<open>count >= value\<close> for an integer \<^verbatim>\<open>count\<close>. The module is
  Python 2 code (it imports \<^verbatim>\<open>scrapy.contrib.feedexport\<close>), where values of
  different types are ordered too: \<^verbatim>\<open>None\<close> is below every value and every number is
  below every string.
\<close>

fun py_ge :: "int \<Rightarrow> pyval \<Rightarrow> bool" where
  "py_ge c PNone = True"
| "py_ge c (PInt t) = (t \<le> c)"
| "py_ge c (PStr s) = False"

datatype error =
  NotConfigured | AttributeError | KeyError | TypeError | ValueError | InvalidStateError
  | NotModelled

text \<open>
  A settings object is a dictionary from names to values. \<^verbatim>\<open>Settings.get(name, default)\<close>
  of Scrapy returns the default also for a name that is stored with the value
  \<^verbatim>\<open>None\<close>; \<^verbatim>\<open>Settings.set(name, value, 100)\<close> stores the value at a priority above
  every priority Scrapy itself uses, so that it always takes effect.
\<close>

type_synonym settings_dict = "string \<rightharpoonup> pyval"

definition settings_get :: "settings_dict \<Rightarrow> string \<Rightarrow> pyval \<Rightarrow> pyval" where
  "settings_get st name dflt =
     (case st name of None \<Rightarrow> dflt | Some v \<Rightarrow> (if v = PNone then dflt else v))"

definition settings_set :: "settings_dict \<Rightarrow> string \<Rightarrow> pyval \<Rightarrow> settings_dict" where
  "settings_set st name v = st(name \<mapsto> v)"

text \<open>
  Settings objects are mutable and shared with the caller, so they live in a store: an
  object's address is its index. \<^verbatim>\<open>copy.deepcopy\<close> allocates a new object with the
  same entries (the values of this model are immutable, so no entry is shared).
\<close>

type_synonym store = "settings_dict list"

definition deepcopy :: "store \<Rightarrow> nat \<Rightarrow> store \<times> nat" where
  "deepcopy h a = (h @ [h ! a], length h)"

subsection \<open>Clock and \<^verbatim>\<open>strftime\<close>\<close>

record datetime =
  year :: nat
  month :: nat
  day :: nat
  hour :: nat
  minute :: nat
  second :: nat

definition digit_char :: "nat \<Rightarrow> char" where
  "digit_char d = ''0123456789'' ! (d mod 10)"

fun dec :: "nat \<Rightarrow> string" where
  "dec n = (if n < 10 then [digit_char n] else dec (n div 10) @ [digit_char (n mod 10)])"

definition zfill :: "nat \<Rightarrow> string \<Rightarrow> string" where
  "zfill w s = replicate (w - length s) (CHR ''0'') @ s"

text \<open>
  The directives of \<^verbatim>\<open>strftime\<close> that this development renders; any other pair
  \<^verbatim>\<open>%x\<close> is copied as it stands.
\<close>

definition directive :: "datetime \<Rightarrow> char \<Rightarrow> string" where
  "directive dt d =
     (if d = CHR ''Y'' then zfill 4 (dec (year dt))
      else if d = CHR ''m'' then zfill 2 (dec (month dt))
      else if d = CHR ''d'' then zfill 2 (dec (day dt))
      else if d = CHR ''H'' then zfill 2 (dec (hour dt))
      else if d = CHR ''M'' then zfill 2 (dec (minute dt))
      else if d = CHR ''S'' then zfill 2 (dec (second dt))
      else if d = CHR ''%'' then ''%''
      else [CHR ''%'', d])"

fun strftime :: "datetime \<Rightarrow> string \<Rightarrow> string" where
  "strftime dt [] = []"
| "strftime dt [c] = [c]"
| "strftime dt (c # d # rest) =
     (if c = CHR ''%'' then directive dt d @ strftime dt rest
      else c # strftime dt (d # rest))"

definition DEFAULT_TIMESTAMP_FORMAT :: string where
  "DEFAULT_TIMESTAMP_FORMAT = ''%Y-%m-%d-%H''"

subsection \<open>What the exporter reads from outside\<close>

text \<open>
  \<^item> \<open>environ\<close>: \<^verbatim>\<open>os.environ\<close>;
  \<^item> \<open>clock\<close>: the readings of \<^verbatim>\<open>datetime.utcnow()\<close>, the k-th call returning
    \<open>clock k\<close>;
  \<^item> \<open>percent\<close>: Python's operator \<^verbatim>\<open>template % params\<close>, which can raise;
  \<^item> \<open>base_params\<close>: the parameters the base class has put into the mapping before it
    calls the hook \<^verbatim>\<open>get_uri_parameters\<close>.
\<close>

record env =
  environ :: "string \<rightharpoonup> string"
  clock :: "nat \<Rightarrow> datetime"
  percent :: "pyval \<Rightarrow> (string \<rightharpoonup> pyval) \<Rightarrow> error + string"
  base_params :: "string \<rightharpoonup> pyval"

section \<open>The sinks and the base class\<close>

text \<open>
  A sink is one output artifact: the address it was opened at, the format, the records
  written to it so far, and whether it has been closed. The world is the list of all
  sinks opened so far, a sink's handle being its index, and the number of clock readings
  taken.
\<close>

record 'i sink =
  address :: string
  sink_format :: pyval
  written :: "'i list"
  is_closed :: bool

record 'i world =
  sinks :: "'i sink list"
  ticks :: nat

record slot =
  uri :: string
  itemcount :: int
  handle :: nat

text \<open>
  The exporter object. \<open>urifmt\<close>, \<open>format\<close> and \<open>slot\<close> are the attributes of the base
  class \<^verbatim>\<open>FeedExporter\<close>; the others are set by \<^verbatim>\<open>ChunkedFeedExporter.__init__\<close>
  (the leading underscore of the private attributes is dropped). \<open>settings\<close> is the
  address of the settings object.
\<close>

record exporter =
  settings :: nat
  items_per_chunk :: pyval
  chunk_number :: int
  timestamp_format :: pyval
  scrapy_job :: pyval
  scrapy_project :: pyval
  scrapy_project_id :: pyval
  urifmt :: pyval
  format :: pyval
  slot :: "slot option"

text \<open>
  Modelled from the spec: the base class \<^verbatim>\<open>FeedExporter\<close> (of Scrapy) is not
  under src/. Its constructor keeps the address template and the sink format it finds
  under \<^verbatim>\<open>FEED_URI\<close> and \<^verbatim>\<open>FEED_FORMAT\<close> and refuses an empty template
  (spec 6 and 7); no slot exists before \<^verbatim>\<open>open_spider\<close>.
\<close>

definition FeedExporter_init :: "settings_dict \<Rightarrow> error + (pyval \<times> pyval)" where
  "FeedExporter_init st =
     (let u = settings_get st ''FEED_URI'' PNone in
      if \<not> truthy u then Inl NotConfigured
      else Inr (u, settings_get st ''FEED_FORMAT'' PNone))"

section \<open>\<^verbatim>\<open>ChunkedFeedExporter\<close>\<close>

text \<open>\<^verbatim>\<open>_get_from_settings_or_environ\<close> (line 90).\<close>

definition get_from_settings_or_environ ::
  "env \<Rightarrow> settings_dict \<Rightarrow> string \<Rightarrow> string \<Rightarrow> pyval" where
  "get_from_settings_or_environ ev st name dflt =
     settings_get st name
       (case environ ev name of None \<Rightarrow> PStr dflt | Some v \<Rightarrow> PStr v)"

text \<open>\<^verbatim>\<open>_get_from_settings_or_not_configured\<close> (line 93).\<close>

definition get_from_settings_or_not_configured ::
  "settings_dict \<Rightarrow> string \<Rightarrow> pyval \<Rightarrow> error + pyval" where
  "get_from_settings_or_not_configured st name dflt =
     (let v = settings_get st name dflt in
      if \<not> truthy v then Inl NotConfigured else Inr v)"

text \<open>
  \<^verbatim>\<open>__init__\<close> (line 40), on the settings object at address \<open>a\<close> of the store. It
  returns the store as the constructor leaves it, and the exporter or the exception.
\<close>

definition ChunkedFeedExporter_init ::
  "env \<Rightarrow> store \<Rightarrow> nat \<Rightarrow> store \<times> (error + exporter)" where
  "ChunkedFeedExporter_init ev h a =
     (let (h1, c) = deepcopy h a; st = h1 ! c in
      case get_from_settings_or_not_configured st ''CHUNKED_FEED_URI'' PNone of
        Inl e \<Rightarrow> (h1, Inl e)
      | Inr chunked_feed_uri \<Rightarrow>
      (case get_from_settings_or_not_configured st ''CHUNKED_FEED_FORMAT'' PNone of
        Inl e \<Rightarrow> (h1, Inl e)
      | Inr chunked_feed_format \<Rightarrow>
      (case get_from_settings_or_not_configured st ''CHUNKED_FEED_ITEMS_PER_CHUNK'' PNone of
        Inl e \<Rightarrow> (h1, Inl e)
      | Inr ipc \<Rightarrow>
      (let h2 = h1[c := settings_set (settings_set st ''FEED_URI'' chunked_feed_uri)
                          ''FEED_FORMAT'' chunked_feed_format];
           st2 = h2 ! c
       in case FeedExporter_init st2 of
            Inl e \<Rightarrow> (h2, Inl e)
          | Inr (u, f) \<Rightarrow>
              (h2, Inr \<lparr> settings = c,
                         items_per_chunk = ipc,
                         chunk_number = 1,
                         timestamp_format =
                           settings_get st2 ''CHUNKED_FEED_TIMESTAMP_FORMAT''
                             (PStr DEFAULT_TIMESTAMP_FORMAT),
                         scrapy_job = get_from_settings_or_environ ev st2 ''SCRAPY_JOB'' ''nojob'',
                         scrapy_project =
                           get_from_settings_or_environ ev st2 ''SCRAPY_PROJECT'' ''noproject'',
                         scrapy_project_id =
                           get_from_settings_or_environ ev st2 ''SCRAPY_PROJECT_ID'' ''noprojectid'',
                         urifmt = u,
                         format = f,
                         slot = None \<rparr>)))))"

text \<open>
  \<^verbatim>\<open>get_uri_parameters\<close> (line 69): updates the mapping it is given and reads the
  clock once. The format handed to \<^verbatim>\<open>strftime\<close> is the literal of line 75.
\<close>

definition get_uri_parameters ::
  "env \<Rightarrow> exporter \<Rightarrow> (string \<rightharpoonup> pyval) \<Rightarrow> nat \<Rightarrow> (string \<rightharpoonup> pyval) \<times> nat" where
  "get_uri_parameters ev e params t =
     (params(''chunk_number'' \<mapsto> PInt (chunk_number e),
             ''scrapy_job'' \<mapsto> scrapy_job e,
             ''scrapy_project_id'' \<mapsto> scrapy_project_id e,
             ''timestamp'' \<mapsto> PStr (strftime (clock ev t) ''%Y-%m-%d-%H'')),
      Suc t)"

text \<open>
  Modelled from the spec: \<^verbatim>\<open>open_spider\<close>, \<^verbatim>\<open>close_spider\<close> and
  \<^verbatim>\<open>item_scraped\<close> of the base class \<^verbatim>\<open>FeedExporter\<close> are not under src/.
  Opening builds the parameters through the hook, resolves the address from the
  template and opens a new sink with an item count of 0 (spec 4.3, start and rotate);
  closing closes the sink of the current slot and fails on a sink that is closed
  already (spec 6); the base \<^verbatim>\<open>item_scraped\<close> writes the record to the open sink
  and adds 1 to the item count (spec 4.3, submit, steps 2 and 3). With no slot, reading
  \<^verbatim>\<open>self.slot\<close> raises \<^verbatim>\<open>AttributeError\<close>.
\<close>

definition resolve_uri :: "env \<Rightarrow> exporter \<Rightarrow> nat \<Rightarrow> (error + string) \<times> nat" where
  "resolve_uri ev e t =
     (let (params, t') = get_uri_parameters ev e (base_params ev) t
      in (percent ev (urifmt e) params, t'))"

definition open_spider ::
  "env \<Rightarrow> exporter \<Rightarrow> 'i world \<Rightarrow> error + (exporter \<times> 'i world)" where
  "open_spider ev e w =
     (case resolve_uri ev e (ticks w) of
        (Inl err, t') \<Rightarrow> Inl err
      | (Inr u, t') \<Rightarrow>
          Inr (e\<lparr>slot := Some \<lparr>uri = u, itemcount = 0, handle = length (sinks w)\<rparr>\<rparr>,
               w\<lparr>sinks := sinks w @
                    [\<lparr>address = u, sink_format = format e, written = [], is_closed = False\<rparr>],
                 ticks := t'\<rparr>))"

definition close_spider ::
  "exporter \<Rightarrow> 'i world \<Rightarrow> error + (exporter \<times> 'i world)" where
  "close_spider e w =
     (case slot e of
        None \<Rightarrow> Inl AttributeError
      | Some s \<Rightarrow>
          if handle s < length (sinks w) \<and> \<not> is_closed (sinks w ! handle s)
          then Inr (e, w\<lparr>sinks := (sinks w)[handle s := (sinks w ! handle s)\<lparr>is_closed := True\<rparr>]\<rparr>)
          else Inl InvalidStateError)"

definition FeedExporter_item_scraped ::
  "'i \<Rightarrow> exporter \<Rightarrow> 'i world \<Rightarrow> error + (exporter \<times> 'i world)" where
  "FeedExporter_item_scraped item e w =
     (case slot e of
        None \<Rightarrow> Inl AttributeError
      | Some s \<Rightarrow>
          if handle s < length (sinks w) \<and> \<not> is_closed (sinks w ! handle s)
          then Inr (e\<lparr>slot := Some (s\<lparr>itemcount := itemcount s + 1\<rparr>)\<rparr>,
                    w\<lparr>sinks := (sinks w)[handle s :=
                         (sinks w ! handle s)\<lparr>written := written (sinks w ! handle s) @ [item]\<rparr>]\<rparr>)
          else Inl InvalidStateError)"

text \<open>\<^verbatim>\<open>_reset_exporter\<close> (line 85).\<close>

definition reset_exporter ::
  "env \<Rightarrow> exporter \<Rightarrow> 'i world \<Rightarrow> error + (exporter \<times> 'i world)" where
  "reset_exporter ev e w =
     (case close_spider e w of
        Inl err \<Rightarrow> Inl err
      | Inr (e1, w1) \<Rightarrow> open_spider ev (e1\<lparr>chunk_number := chunk_number e1 + 1\<rparr>) w1)"

text \<open>
  The condition of line 79. \<^verbatim>\<open>and\<close> evaluates its right operand, which reads
  \<^verbatim>\<open>self.slot\<close>, only when the left one is true.
\<close>

definition must_rotate :: "exporter \<Rightarrow> error + bool" where
  "must_rotate e =
     (if truthy (items_per_chunk e)
      then (case slot e of
              None \<Rightarrow> Inl AttributeError
            | Some s \<Rightarrow> Inr (py_ge (itemcount s) (items_per_chunk e)))
      else Inr False)"

text \<open>\<^verbatim>\<open>item_scraped\<close> (line 78).\<close>

definition item_scraped ::
  "env \<Rightarrow> 'i \<Rightarrow> exporter \<Rightarrow> 'i world \<Rightarrow> error + (exporter \<times> 'i world)" where
  "item_scraped ev item e w =
     (case must_rotate e of
        Inl err \<Rightarrow> Inl err
      | Inr True \<Rightarrow>
          (case reset_exporter ev e w of
             Inl err \<Rightarrow> Inl err
           | Inr (e1, w1) \<Rightarrow> FeedExporter_item_scraped item e1 w1)
      | Inr False \<Rightarrow> FeedExporter_item_scraped item e w)"

section \<open>A run\<close>

text \<open>
  The driver of the tests (\<^verbatim>\<open>ChunkExtensionTest\<close>): \<^verbatim>\<open>add_items\<close> submits the
  records one after the other; \<^verbatim>\<open>start\<close> constructs the exporter and opens the
  first sink in a world without sinks; \<^verbatim>\<open>stop\<close> closes the current sink.
\<close>

fun add_items ::
  "env \<Rightarrow> 'i list \<Rightarrow> exporter \<Rightarrow> 'i world \<Rightarrow> error + (exporter \<times> 'i world)" where
  "add_items ev [] e w = Inr (e, w)"
| "add_items ev (x # xs) e w =
     (case item_scraped ev x e w of
        Inl err \<Rightarrow> Inl err
      | Inr (e1, w1) \<Rightarrow> add_items ev xs e1 w1)"

definition empty_world :: "'i world" where
  "empty_world = \<lparr>sinks = [], ticks = 0\<rparr>"

definition start :: "env \<Rightarrow> store \<Rightarrow> nat \<Rightarrow> 'i list \<Rightarrow> error + (exporter \<times> 'i world)" where
  "start ev h a items =
     (case snd (ChunkedFeedExporter_init ev h a) of
        Inl err \<Rightarrow> Inl err
      | Inr e \<Rightarrow>
          (case open_spider ev e empty_world of
             Inl err \<Rightarrow> Inl err
           | Inr (e1, w1) \<Rightarrow> add_items ev items e1 w1))"

definition stop :: "exporter \<Rightarrow> 'i world \<Rightarrow> error + (exporter \<times> 'i world)" where
  "stop e w = close_spider e w"

definition run :: "env \<Rightarrow> store \<Rightarrow> nat \<Rightarrow> 'i list \<Rightarrow> error + (exporter \<times> 'i world)" where
  "run ev h a items =
     (case start ev h a items of
        Inl err \<Rightarrow> Inl err
      | Inr (e, w) \<Rightarrow> stop e w)"

section \<open>A reference interpreter for the address templates\<close>

text \<open>
  The theorems below hold for every behaviour of the operator \<^verbatim>\<open>%\<close> that the
  environment supplies. To evaluate runs on concrete inputs, \<open>py_percent\<close> interprets the
  named placeholders that the address templates of the tests use:
  \<^verbatim>\<open>%(key)s\<close>, \<^verbatim>\<open>%(key)d\<close> with an optional zero flag and width, and
  \<^verbatim>\<open>%%\<close>. A missing key is a \<^verbatim>\<open>KeyError\<close>, \<^verbatim>\<open>%d\<close> of a value that is
  not a number a \<^verbatim>\<open>TypeError\<close>, a template that ends inside a placeholder a
  \<^verbatim>\<open>ValueError\<close>; any other conversion is reported as \<open>NotModelled\<close>.
\<close>

definition show_int :: "int \<Rightarrow> string" where
  "show_int n = (if n < 0 then CHR ''-'' # dec (nat (- n)) else dec (nat n))"

fun py_str :: "pyval \<Rightarrow> string" where
  "py_str PNone = ''None''"
| "py_str (PInt n) = show_int n"
| "py_str (PStr s) = s"

definition fmt_int :: "bool \<Rightarrow> nat \<Rightarrow> int \<Rightarrow> string" where
  "fmt_int z w n =
     (let sgn = (if n < 0 then ''-'' else ''''); ds = dec (nat \<bar>n\<bar>);
          fill = w - length sgn - length ds
      in if z then sgn @ replicate fill (CHR ''0'') @ ds
         else replicate fill (CHR '' '') @ sgn @ ds)"

definition fmt_str :: "nat \<Rightarrow> string \<Rightarrow> string" where
  "fmt_str w s = replicate (w - length s) (CHR '' '') @ s"

definition digit_val :: "char \<Rightarrow> nat option" where
  "digit_val c = map_of [(CHR ''0'', 0), (CHR ''1'', 1), (CHR ''2'', 2), (CHR ''3'', 3),
     (CHR ''4'', 4), (CHR ''5'', 5), (CHR ''6'', 6), (CHR ''7'', 7), (CHR ''8'', 8),
     (CHR ''9'', 9)] c"

datatype fstate = Lit | Pct | Key string | Spec string bool nat

definition emit :: "string \<Rightarrow> error + string \<Rightarrow> error + string" where
  "emit s r = (case r of Inl err \<Rightarrow> Inl err | Inr t \<Rightarrow> Inr (s @ t))"

fun format_dict :: "fstate \<Rightarrow> (string \<rightharpoonup> pyval) \<Rightarrow> string \<Rightarrow> error + string" where
  "format_dict Lit ps [] = Inr []"
| "format_dict Lit ps (c # cs) =
     (if c = CHR ''%'' then format_dict Pct ps cs else emit [c] (format_dict Lit ps cs))"
| "format_dict Pct ps [] = Inl ValueError"
| "format_dict Pct ps (c # cs) =
     (if c = CHR ''%'' then emit ''%'' (format_dict Lit ps cs)
      else if c = CHR ''('' then format_dict (Key []) ps cs
      else Inl NotModelled)"
| "format_dict (Key k) ps [] = Inl ValueError"
| "format_dict (Key k) ps (c # cs) =
     (if c = CHR '')'' then format_dict (Spec k False 0) ps cs
      else format_dict (Key (k @ [c])) ps cs)"
| "format_dict (Spec k z w) ps [] = Inl ValueError"
| "format_dict (Spec k z w) ps (c # cs) =
     (if c = CHR ''0'' \<and> \<not> z \<and> w = 0 then format_dict (Spec k True 0) ps cs
      else case digit_val c of
        Some d \<Rightarrow> format_dict (Spec k z (10 * w + d)) ps cs
      | None \<Rightarrow>
          if c = CHR ''d'' then
            (case ps k of
               None \<Rightarrow> Inl KeyError
             | Some (PInt n) \<Rightarrow> emit (fmt_int z w n) (format_dict Lit ps cs)
             | Some _ \<Rightarrow> Inl TypeError)
          else if c = CHR ''s'' then
            (case ps k of
               None \<Rightarrow> Inl KeyError
             | Some v \<Rightarrow> emit (fmt_str w (py_str v)) (format_dict Lit ps cs))
          else Inl NotModelled)"

definition py_percent :: "pyval \<Rightarrow> (string \<rightharpoonup> pyval) \<Rightarrow> error + string" where
  "py_percent t ps = (case t of PStr s \<Rightarrow> format_dict Lit ps s | _ \<Rightarrow> Inl TypeError)"

subsection \<open>The settings and the surroundings of the tests\<close>

text \<open>
  The settings of the test class \<^verbatim>\<open>ItemsAndChunks\<close> with the address template of
  the class docstring, for a given value of \<^verbatim>\<open>CHUNKED_FEED_ITEMS_PER_CHUNK\<close>; a
  process environment without the Scrapy variables; a clock that stands at
  2014-03-07 15:00:00.
\<close>

definition test_settings :: "pyval \<Rightarrow> settings_dict" where
  "test_settings n =
     [''CHUNKED_FEED_URI'' \<mapsto> PStr ''export_%(chunk_number)02d.json'',
      ''CHUNKED_FEED_FORMAT'' \<mapsto> PStr ''json'',
      ''CHUNKED_FEED_ITEMS_PER_CHUNK'' \<mapsto> n]"

definition test_time :: datetime where
  "test_time = \<lparr>year = 2014, month = 3, day = 7, hour = 15, minute = 0, second = 0\<rparr>"

definition test_env :: env where
  "test_env = \<lparr>environ = Map.empty, clock = (\<lambda>k. test_time), percent = py_percent,
                base_params = Map.empty\<rparr>"

text \<open>The exporter that the constructor builds from \<open>test_settings n\<close>.\<close>

definition test_exporter :: "pyval \<Rightarrow> exporter" where
  "test_exporter n =
     \<lparr>settings = 1, items_per_chunk = n, chunk_number = 1,
      timestamp_format = PStr ''%Y-%m-%d-%H'', scrapy_job = PStr ''nojob'',
      scrapy_project = PStr ''noproject'', scrapy_project_id = PStr ''noprojectid'',
      urifmt = PStr ''export_%(chunk_number)02d.json'', format = PStr ''json'',
      slot = None\<rparr>"

text \<open>
  Settings that name a job, in an environment that names another job and a project id,
  and the exporter that the constructor builds from them.
\<close>

definition job_settings :: settings_dict where
  "job_settings = (test_settings (PInt 2))(''SCRAPY_JOB'' \<mapsto> PStr ''12/34/56'')"

definition job_env :: env where
  "job_env = test_env\<lparr>environ := [''SCRAPY_JOB'' \<mapsto> ''9/9/9'', ''SCRAPY_PROJECT_ID'' \<mapsto> ''77'']\<rparr>"

definition job_exporter :: exporter where
  "job_exporter = (test_exporter (PInt 2))\<lparr>scrapy_job := PStr ''12/34/56'',
                     scrapy_project_id := PStr ''77''\<rparr>"

section \<open>Invariants of a run\<close>

text \<open>
  \<open>same_config e0 e\<close>: the exporter \<open>e\<close> differs from \<open>e0\<close> in its chunk number and
  its slot at most.
\<close>

definition same_config :: "exporter \<Rightarrow> exporter \<Rightarrow> bool" where
  "same_config e0 e = (e\<lparr>chunk_number := chunk_number e0, slot := slot e0\<rparr> = e0)"

text \<open>
  \<open>resolves ev e0\<close>: the address template of \<open>e0\<close> resolves for every chunk number, at
  every clock reading.
\<close>

definition resolves :: "env \<Rightarrow> exporter \<Rightarrow> bool" where
  "resolves ev e0 = (\<forall>c t. \<exists>u. fst (resolve_uri ev (e0\<lparr>chunk_number := c\<rparr>) t) = Inr u)"

text \<open>
  \<open>open_last e w\<close>: the slot of the exporter holds the sink opened last, that sink is
  open, and the slot's item count is the number of records written to it.
\<close>

definition open_last :: "exporter \<Rightarrow> 'i world \<Rightarrow> bool" where
  "open_last e w =
     (\<exists>s ds cur. slot e = Some s \<and> sinks w = ds @ [cur] \<and> handle s = length ds \<and>
        \<not> is_closed cur \<and> itemcount s = int (length (written cur)))"

text \<open>
  \<open>chunked ev e0 T e w\<close>: moreover every earlier sink is closed and holds exactly \<open>T\<close>
  records, the current one holds at most \<open>T\<close>, the chunk number and the number of clock
  readings are the number of sinks, and the i-th sink (counting from 0) was opened at the
  address that the template yields for chunk number \<open>i + 1\<close> at the i-th clock reading.
\<close>

definition chunked :: "env \<Rightarrow> exporter \<Rightarrow> nat \<Rightarrow> exporter \<Rightarrow> 'i world \<Rightarrow> bool" where
  "chunked ev e0 T e w =
     (\<exists>s ds cur. slot e = Some s \<and> sinks w = ds @ [cur] \<and> handle s = length ds \<and>
        \<not> is_closed cur \<and> itemcount s = int (length (written cur)) \<and>
        (\<forall>d\<in>set ds. length (written d) = T \<and> is_closed d) \<and> length (written cur) \<le> T \<and>
        chunk_number e = int (length (sinks w)) \<and> ticks w = length (sinks w) \<and>
        map (\<lambda>k. Inr (address k)) (sinks w) =
          map (\<lambda>i. fst (resolve_uri ev (e0\<lparr>chunk_number := int i + 1\<rparr>) i)) [0..<length (sinks w)])"

text \<open>The ceiling of \<open>n / t\<close> for natural numbers.\<close>

definition ceil_div :: "nat \<Rightarrow> nat \<Rightarrow> nat" where
  "ceil_div n t = (n + t - 1) div t"

section \<open>Lemmas about the operations\<close>

lemma resolve_uri_ticks: "snd (resolve_uri ev e t) = Suc t"
  by (simp add: resolve_uri_def get_uri_parameters_def)

lemma resolve_uri_slot: "resolve_uri ev (e\<lparr>slot := sl\<rparr>) t = resolve_uri ev e t"
  by (simp add: resolve_uri_def get_uri_parameters_def)

lemma open_spider_eq:
  "open_spider ev e w =
     (case fst (resolve_uri ev e (ticks w)) of
        Inl err \<Rightarrow> Inl err
      | Inr u \<Rightarrow>
          Inr (e\<lparr>slot := Some \<lparr>uri = u, itemcount = 0, handle = length (sinks w)\<rparr>\<rparr>,
               w\<lparr>sinks := sinks w @
                    [\<lparr>address = u, sink_format = format e, written = [], is_closed = False\<rparr>],
                 ticks := Suc (ticks w)\<rparr>))"
  by (simp add: open_spider_def resolve_uri_def get_uri_parameters_def split: sum.splits)

lemma close_spider_current:
  assumes "slot e = Some s" "sinks w = ds @ [cur]" "handle s = length ds" "\<not> is_closed cur"
  shows "close_spider e w = Inr (e, w\<lparr>sinks := ds @ [cur\<lparr>is_closed := True\<rparr>]\<rparr>)"
  using assms by (simp add: close_spider_def)

lemma write_current:
  assumes "slot e = Some s" "sinks w = ds @ [cur]" "handle s = length ds" "\<not> is_closed cur"
  shows "FeedExporter_item_scraped x e w =
           Inr (e\<lparr>slot := Some (s\<lparr>itemcount := itemcount s + 1\<rparr>)\<rparr>,
                w\<lparr>sinks := ds @ [cur\<lparr>written := written cur @ [x]\<rparr>]\<rparr>)"
  using assms by (simp add: FeedExporter_item_scraped_def)

lemma item_scraped_keep:
  assumes "slot e = Some s" "sinks w = ds @ [cur]" "handle s = length ds" "\<not> is_closed cur"
    and "\<not> (truthy (items_per_chunk e) \<and> py_ge (itemcount s) (items_per_chunk e))"
  shows "item_scraped ev x e w =
           Inr (e\<lparr>slot := Some (s\<lparr>itemcount := itemcount s + 1\<rparr>)\<rparr>,
                w\<lparr>sinks := ds @ [cur\<lparr>written := written cur @ [x]\<rparr>]\<rparr>)"
  using assms write_current[OF assms(1-4), of x]
  by (auto simp add: item_scraped_def must_rotate_def)

lemma item_scraped_rotate:
  assumes "slot e = Some s" "sinks w = ds @ [cur]" "handle s = length ds" "\<not> is_closed cur"
    and "truthy (items_per_chunk e)" "py_ge (itemcount s) (items_per_chunk e)"
    and "fst (resolve_uri ev (e\<lparr>chunk_number := chunk_number e + 1\<rparr>) (ticks w)) = Inr u"
  shows "item_scraped ev x e w =
           Inr (e\<lparr>chunk_number := chunk_number e + 1,
                   slot := Some \<lparr>uri = u, itemcount = 1, handle = Suc (length ds)\<rparr>\<rparr>,
                w\<lparr>sinks := ds @ [cur\<lparr>is_closed := True\<rparr>,
                      \<lparr>address = u, sink_format = format e, written = [x], is_closed = False\<rparr>],
                  ticks := Suc (ticks w)\<rparr>)"
  using assms
  by (simp add: item_scraped_def must_rotate_def reset_exporter_def close_spider_current[OF assms(1-4)]
       open_spider_eq FeedExporter_item_scraped_def nth_append list_update_append)


lemma same_config_refl: "same_config e e"
  by (simp add: same_config_def)

lemma same_config_fields:
  "same_config e0 e \<Longrightarrow> items_per_chunk e = items_per_chunk e0 \<and> urifmt e = urifmt e0 \<and>
     format e = format e0 \<and> scrapy_job e = scrapy_job e0 \<and>
     scrapy_project e = scrapy_project e0 \<and> scrapy_project_id e = scrapy_project_id e0 \<and>
     timestamp_format e = timestamp_format e0 \<and> settings e = settings e0"
  by (cases e, cases e0) (simp add: same_config_def)

lemma same_config_update:
  "same_config e0 e \<Longrightarrow> same_config e0 (e\<lparr>chunk_number := c, slot := sl\<rparr>)"
  "same_config e0 e \<Longrightarrow> same_config e0 (e\<lparr>slot := sl\<rparr>)"
  by (cases e, cases e0, simp add: same_config_def)+

lemma resolve_uri_same_config:
  "same_config e0 e \<Longrightarrow> resolve_uri ev e t = resolve_uri ev (e0\<lparr>chunk_number := chunk_number e\<rparr>) t"
  by (cases e, cases e0) (simp add: same_config_def resolve_uri_def get_uri_parameters_def)

lemma item_scraped_open_last:
  assumes "open_last e w" "same_config e0 e" "resolves ev e0"
  shows "\<exists>e' w'. item_scraped ev x e w = Inr (e', w') \<and> open_last e' w' \<and> same_config e0 e' \<and>
           concat (map written (sinks w')) = concat (map written (sinks w)) @ [x]"
proof -
  from assms(1) obtain s ds cur where
    h: "slot e = Some s" "sinks w = ds @ [cur]" "handle s = length ds" "\<not> is_closed cur"
    and ic: "itemcount s = int (length (written cur))"
    by (auto simp: open_last_def)
  show ?thesis
  proof (cases "truthy (items_per_chunk e) \<and> py_ge (itemcount s) (items_per_chunk e)")
    case True
    from assms(3) obtain u where
      u: "fst (resolve_uri ev (e0\<lparr>chunk_number := chunk_number e + 1\<rparr>) (ticks w)) = Inr u"
      by (auto simp: resolves_def)
    have "resolve_uri ev (e\<lparr>chunk_number := chunk_number e + 1\<rparr>) (ticks w) =
          resolve_uri ev (e0\<lparr>chunk_number := chunk_number e + 1\<rparr>) (ticks w)"
      using assms(2) by (cases e, cases e0) (simp add: same_config_def resolve_uri_def get_uri_parameters_def)
    with u have u': "fst (resolve_uri ev (e\<lparr>chunk_number := chunk_number e + 1\<rparr>) (ticks w)) = Inr u"
      by simp
    from True have t1: "truthy (items_per_chunk e)" and t2: "py_ge (itemcount s) (items_per_chunk e)"
      by simp_all
    show ?thesis
      using h assms(2)
      by (simp add: item_scraped_rotate[OF h t1 t2 u'] open_last_def same_config_update)
  next
    case False
    show ?thesis
      using h ic assms(2)
      by (simp add: item_scraped_keep[OF h False] open_last_def same_config_update)
  qed
qed

lemma add_items_open_last:
  assumes "resolves ev e0"
  shows "open_last e w \<Longrightarrow> same_config e0 e \<Longrightarrow>
         \<exists>e' w'. add_items ev xs e w = Inr (e', w') \<and> open_last e' w' \<and> same_config e0 e' \<and>
           concat (map written (sinks w')) = concat (map written (sinks w)) @ xs"
proof (induction xs arbitrary: e w)
  case Nil
  then show ?case by simp
next
  case (Cons x xs)
  from item_scraped_open_last[OF Cons.prems assms, of x] obtain e1 w1 where
    s: "item_scraped ev x e w = Inr (e1, w1)" "open_last e1 w1" "same_config e0 e1"
       "concat (map written (sinks w1)) = concat (map written (sinks w)) @ [x]"
    by blast
  from Cons.IH[OF s(2,3)] obtain e' w' where
    r: "add_items ev xs e1 w1 = Inr (e', w')" "open_last e' w'" "same_config e0 e'"
       "concat (map written (sinks w')) = concat (map written (sinks w1)) @ xs"
    by blast
  show ?case using s r by simp
qed


lemma chunked_open_last: "chunked ev e0 T e w \<Longrightarrow> open_last e w"
  unfolding chunked_def open_last_def by blast

lemma item_scraped_chunked:
  assumes inv: "chunked ev e0 T e w" and sc: "same_config e0 e" and res: "resolves ev e0"
    and ipc: "items_per_chunk e0 = PInt (int T)" and T: "0 < T"
  shows "\<exists>e' w'. item_scraped ev x e w = Inr (e', w') \<and> chunked ev e0 T e' w' \<and>
           written (last (sinks w')) \<noteq> []"
proof -
  from inv obtain s ds cur where
    h: "slot e = Some s" "sinks w = ds @ [cur]" "handle s = length ds" "\<not> is_closed cur"
    and ic: "itemcount s = int (length (written cur))"
    and full: "\<forall>d\<in>set ds. length (written d) = T \<and> is_closed d"
    and le: "length (written cur) \<le> T"
    and cn: "chunk_number e = int (length (sinks w))"
    and tk: "ticks w = length (sinks w)"
    and ad: "map (\<lambda>k. Inr (address k)) (sinks w) =
          map (\<lambda>i. fst (resolve_uri ev (e0\<lparr>chunk_number := int i + 1\<rparr>) i)) [0..<length (sinks w)]"
    unfolding chunked_def by blast
  have ipc': "items_per_chunk e = PInt (int T)"
    using same_config_fields[OF sc] ipc by simp
  show ?thesis
  proof (cases "T \<le> length (written cur)")
    case True
    from res obtain u where
      u: "fst (resolve_uri ev (e0\<lparr>chunk_number := chunk_number e + 1\<rparr>) (ticks w)) = Inr u"
      by (auto simp: resolves_def)
    have "resolve_uri ev (e\<lparr>chunk_number := chunk_number e + 1\<rparr>) (ticks w) =
          resolve_uri ev (e0\<lparr>chunk_number := chunk_number e + 1\<rparr>) (ticks w)"
      using resolve_uri_same_config[of e0 "e\<lparr>chunk_number := chunk_number e + 1\<rparr>" ev "ticks w"] sc
      by (cases e, cases e0) (simp add: same_config_def)
    with u have u': "fst (resolve_uri ev (e\<lparr>chunk_number := chunk_number e + 1\<rparr>) (ticks w)) = Inr u"
      by simp
    have t1: "truthy (items_per_chunk e)" using ipc' T by simp
    have t2: "py_ge (itemcount s) (items_per_chunk e)" using ipc' ic True by simp
    have len: "length (written cur) = T" using True le by simp
    have u2: "fst (resolve_uri ev (e0\<lparr>chunk_number := int (length ds) + 2\<rparr>) (Suc (length ds))) = Inr u"
      using u cn tk h(2) by (simp add: add.commute)
    have ad': "map (\<lambda>k. Inr (address k)) ds =
          map (\<lambda>i. fst (resolve_uri ev (e0\<lparr>chunk_number := int i + 1\<rparr>) i)) [0..<length ds]"
      and adc: "fst (resolve_uri ev (e0\<lparr>chunk_number := int (length ds) + 1\<rparr>) (length ds)) = Inr (address cur)"
      using ad h(2) by simp_all
    let ?e' = "e\<lparr>chunk_number := chunk_number e + 1,
                   slot := Some \<lparr>uri = u, itemcount = 1, handle = Suc (length ds)\<rparr>\<rparr>"
    let ?new = "\<lparr>address = u, sink_format = format e, written = [x], is_closed = False\<rparr>"
    let ?w' = "w\<lparr>sinks := ds @ [cur\<lparr>is_closed := True\<rparr>, ?new], ticks := Suc (ticks w)\<rparr>"
    have step: "item_scraped ev x e w = Inr (?e', ?w')"
      by (rule item_scraped_rotate[OF h t1 t2 u'])
    have "chunked ev e0 T ?e' ?w'"
      unfolding chunked_def
      apply (rule exI[of _ "\<lparr>uri = u, itemcount = 1, handle = Suc (length ds)\<rparr>"])
      apply (rule exI[of _ "ds @ [cur\<lparr>is_closed := True\<rparr>]"])
      apply (rule exI[of _ ?new])
      using full len T cn tk h(2) ad' adc u2
      by (simp add: add.commute)
    moreover have "written (last (sinks ?w')) \<noteq> []" by simp
    ultimately show ?thesis using step by blast
  next
    case False
    have nr: "\<not> (truthy (items_per_chunk e) \<and> py_ge (itemcount s) (items_per_chunk e))"
      using ipc' ic False by simp
    let ?e' = "e\<lparr>slot := Some (s\<lparr>itemcount := itemcount s + 1\<rparr>)\<rparr>"
    let ?w' = "w\<lparr>sinks := ds @ [cur\<lparr>written := written cur @ [x]\<rparr>]\<rparr>"
    have step: "item_scraped ev x e w = Inr (?e', ?w')"
      by (rule item_scraped_keep[OF h nr])
    have "chunked ev e0 T ?e' ?w'"
      unfolding chunked_def
      apply (rule exI[of _ "s\<lparr>itemcount := itemcount s + 1\<rparr>"])
      apply (rule exI[of _ ds])
      apply (rule exI[of _ "cur\<lparr>written := written cur @ [x]\<rparr>"])
      using h ic full False cn tk ad
      by simp
    moreover have "written (last (sinks ?w')) \<noteq> []" by simp
    ultimately show ?thesis using step by blast
  qed
qed


lemma settings_get_set:
  "settings_get (settings_set st k v) k' d =
     (if k' = k then (if v = PNone then d else v) else settings_get st k' d)"
  by (simp add: settings_get_def settings_set_def)

lemma truthy_not_None: "truthy v \<Longrightarrow> v \<noteq> PNone"
  by (cases v) simp_all

lemma init_eq:
  "ChunkedFeedExporter_init ev h a =
     (let st = h ! a;
          u = settings_get st ''CHUNKED_FEED_URI'' PNone;
          f = settings_get st ''CHUNKED_FEED_FORMAT'' PNone;
          n = settings_get st ''CHUNKED_FEED_ITEMS_PER_CHUNK'' PNone
      in if truthy u \<and> truthy f \<and> truthy n
         then (h @ [settings_set (settings_set st ''FEED_URI'' u) ''FEED_FORMAT'' f],
               Inr \<lparr> settings = length h, items_per_chunk = n, chunk_number = 1,
                     timestamp_format =
                       settings_get st ''CHUNKED_FEED_TIMESTAMP_FORMAT'' (PStr DEFAULT_TIMESTAMP_FORMAT),
                     scrapy_job = get_from_settings_or_environ ev st ''SCRAPY_JOB'' ''nojob'',
                     scrapy_project = get_from_settings_or_environ ev st ''SCRAPY_PROJECT'' ''noproject'',
                     scrapy_project_id =
                       get_from_settings_or_environ ev st ''SCRAPY_PROJECT_ID'' ''noprojectid'',
                     urifmt = u, format = f, slot = None \<rparr>)
         else (h @ [st], Inl NotConfigured))"
  by (simp add: ChunkedFeedExporter_init_def deepcopy_def get_from_settings_or_not_configured_def
        FeedExporter_init_def get_from_settings_or_environ_def settings_get_set truthy_not_None Let_def)

lemma init_test: "ChunkedFeedExporter_init test_env [test_settings n] 0 =
   (if truthy n then
      ([test_settings n, (test_settings n)(''FEED_URI'' \<mapsto> PStr ''export_%(chunk_number)02d.json'',
                             ''FEED_FORMAT'' \<mapsto> PStr ''json'')], Inr (test_exporter n))
    else ([test_settings n, test_settings n], Inl NotConfigured))"
  by (cases n)
     (simp_all add: init_eq settings_get_def settings_set_def get_from_settings_or_environ_def
       DEFAULT_TIMESTAMP_FORMAT_def test_settings_def test_exporter_def test_env_def Let_def)

lemma start_fails: "snd (ChunkedFeedExporter_init ev h a) = Inl err \<Longrightarrow> start ev h a items = Inl err"
  by (simp add: start_def)

lemma run_fails: "snd (ChunkedFeedExporter_init ev h a) = Inl err \<Longrightarrow> run ev h a items = Inl err"
  by (simp add: run_def start_def)

subsection \<open>Whole runs\<close>

lemma add_items_chunked:
  assumes res: "resolves ev e0" and ipc: "items_per_chunk e0 = PInt (int T)" and T: "0 < T"
  shows "chunked ev e0 T e w \<Longrightarrow> same_config e0 e \<Longrightarrow>
         \<exists>e' w'. add_items ev xs e w = Inr (e', w') \<and> chunked ev e0 T e' w' \<and> same_config e0 e' \<and>
           (xs \<noteq> [] \<longrightarrow> written (last (sinks w')) \<noteq> []) \<and>
           concat (map written (sinks w')) = concat (map written (sinks w)) @ xs"
proof (induction xs arbitrary: e w)
  case Nil
  then show ?case by simp
next
  case (Cons x xs)
  from item_scraped_chunked[OF Cons.prems res ipc T, of x] obtain e1 w1 where
    s: "item_scraped ev x e w = Inr (e1, w1)" "chunked ev e0 T e1 w1"
       "written (last (sinks w1)) \<noteq> []"
    by blast
  from item_scraped_open_last[OF chunked_open_last[OF Cons.prems(1)] Cons.prems(2) res, of x] s(1)
  have s': "same_config e0 e1"
     "concat (map written (sinks w1)) = concat (map written (sinks w)) @ [x]"
    by auto
  from Cons.IH[OF s(2) s'(1)] obtain e' w' where
    r: "add_items ev xs e1 w1 = Inr (e', w')" "chunked ev e0 T e' w'" "same_config e0 e'"
       "xs \<noteq> [] \<longrightarrow> written (last (sinks w')) \<noteq> []"
       "concat (map written (sinks w')) = concat (map written (sinks w1)) @ xs"
    by blast
  have "written (last (sinks w')) \<noteq> []"
  proof (cases xs)
    case Nil
    with r(1) s(3) show ?thesis by simp
  next
    case (Cons y ys)
    with r(4) show ?thesis by simp
  qed
  then show ?case using s(1) s' r by simp
qed

lemma open_spider_first:
  assumes "chunk_number e0 = 1" "resolves ev e0"
  shows "\<exists>e w. open_spider ev e0 empty_world = Inr (e, (w :: 'i world)) \<and> chunked ev e0 T e w \<and>
           same_config e0 e \<and> open_last e w \<and> concat (map written (sinks w)) = [] \<and>
           length (sinks w) = 1 \<and> chunk_number e = 1"
proof -
  have e0: "e0\<lparr>chunk_number := 1\<rparr> = e0" using assms(1) by (cases e0) simp
  from assms(2) obtain u where "fst (resolve_uri ev (e0\<lparr>chunk_number := 1\<rparr>) 0) = Inr u"
    unfolding resolves_def by blast
  then have u: "fst (resolve_uri ev e0 0) = Inr u" by (simp add: e0)
  show ?thesis
    using u assms(1)
    by (simp add: open_spider_eq empty_world_def chunked_def open_last_def same_config_update
          same_config_refl e0)
qed

lemma item_scraped_frame:
  assumes "item_scraped ev x e w = Inr (e', w')" "same_config e0 e"
  shows "same_config e0 e'"
  using assms
  by (auto simp add: item_scraped_def must_rotate_def reset_exporter_def close_spider_def
        open_spider_eq FeedExporter_item_scraped_def same_config_update
      split: sum.splits option.splits if_splits bool.splits)

lemma add_items_frame:
  "add_items ev xs e w = Inr (e', w') \<Longrightarrow> same_config e0 e \<Longrightarrow> same_config e0 e'"
proof (induction xs arbitrary: e w)
  case Nil
  then show ?case by simp
next
  case (Cons x xs)
  then show ?case
    by (auto split: sum.splits dest: item_scraped_frame)
qed

lemma ceil_div_eq:
  assumes "n = m * t + r" "1 \<le> r" "r \<le> t"
  shows "ceil_div n t = m + 1"
proof -
  have t: "t \<noteq> 0" using assms by simp
  have "n + t - 1 = (r - 1) + (m + 1) * t" using assms by (simp add: algebra_simps)
  then have "ceil_div n t = ((r - 1) + (m + 1) * t) div t" by (simp only: ceil_div_def)
  also have "\<dots> = (m + 1) + (r - 1) div t" using t by (rule div_mult_self1)
  also have "(r - 1) div t = 0" using assms by simp
  finally show ?thesis by simp
qed

lemma map_const_replicate: "\<forall>d\<in>set ds. f d = c \<Longrightarrow> map f ds = replicate (length ds) c"
  by (induction ds) simp_all

lemma chunked_sizes:
  assumes "chunked ev e0 T e w"
  shows "map (\<lambda>s. length (written s)) (sinks w) =
           replicate (length (sinks w) - 1) T @ [length (written (last (sinks w)))]"
    and "length (written (last (sinks w))) \<le> T"
    and "length (concat (map written (sinks w))) =
           (length (sinks w) - 1) * T + length (written (last (sinks w)))"
    and "chunk_number e = int (length (sinks w))"
    and "sinks w \<noteq> []"
    and "map (\<lambda>k. Inr (address k)) (sinks w) =
          map (\<lambda>i. fst (resolve_uri ev (e0\<lparr>chunk_number := int i + 1\<rparr>) i)) [0..<length (sinks w)]"
proof -
  from assms obtain s ds cur where
    h: "sinks w = ds @ [cur]"
    and full: "\<forall>d\<in>set ds. length (written d) = T \<and> is_closed d"
    and le: "length (written cur) \<le> T"
    and cn: "chunk_number e = int (length (sinks w))"
    and ad: "map (\<lambda>k. Inr (address k)) (sinks w) =
          map (\<lambda>i. fst (resolve_uri ev (e0\<lparr>chunk_number := int i + 1\<rparr>) i)) [0..<length (sinks w)]"
    unfolding chunked_def by blast
  have m: "map (\<lambda>s. length (written s)) ds = replicate (length ds) T"
    using full by (intro map_const_replicate) simp
  show "map (\<lambda>s. length (written s)) (sinks w) =
           replicate (length (sinks w) - 1) T @ [length (written (last (sinks w)))]"
    using h m by simp
  show "length (written (last (sinks w))) \<le> T" using h le by simp
  have "length (concat (map written ds)) = length ds * T"
    using m by (simp add: length_concat comp_def sum_list_replicate)
  then show "length (concat (map written (sinks w))) =
           (length (sinks w) - 1) * T + length (written (last (sinks w)))"
    using h by simp
  show "chunk_number e = int (length (sinks w))" by (rule cn)
  show "sinks w \<noteq> []" using h by simp
  show "map (\<lambda>k. Inr (address k)) (sinks w) =
          map (\<lambda>i. fst (resolve_uri ev (e0\<lparr>chunk_number := int i + 1\<rparr>) i)) [0..<length (sinks w)]"
    by (rule ad)
qed

lemma init_ok:
  assumes "snd (ChunkedFeedExporter_init ev h a) = Inr e"
  shows "chunk_number e = 1" "slot e = None" "settings e = length h"
    "items_per_chunk e = settings_get (h ! a) ''CHUNKED_FEED_ITEMS_PER_CHUNK'' PNone"
    "urifmt e = settings_get (h ! a) ''CHUNKED_FEED_URI'' PNone"
    "format e = settings_get (h ! a) ''CHUNKED_FEED_FORMAT'' PNone"
    "timestamp_format e =
       settings_get (h ! a) ''CHUNKED_FEED_TIMESTAMP_FORMAT'' (PStr DEFAULT_TIMESTAMP_FORMAT)"
    "scrapy_job e = get_from_settings_or_environ ev (h ! a) ''SCRAPY_JOB'' ''nojob''"
    "scrapy_project e = get_from_settings_or_environ ev (h ! a) ''SCRAPY_PROJECT'' ''noproject''"
    "scrapy_project_id e = get_from_settings_or_environ ev (h ! a) ''SCRAPY_PROJECT_ID'' ''noprojectid''"
    "truthy (items_per_chunk e)" "truthy (urifmt e)" "truthy (format e)"
  using assms
  by (auto simp add: init_eq Let_def split: if_splits)

lemma start_eq:
  "snd (ChunkedFeedExporter_init ev h a) = Inr e0 \<Longrightarrow>
   open_spider ev e0 empty_world = Inr (e1, w1) \<Longrightarrow>
   start ev h a items = add_items ev items e1 w1"
  by (simp add: start_def)

lemma start_chunked:
  assumes init: "snd (ChunkedFeedExporter_init ev h a) = Inr e0"
    and ipc: "items_per_chunk e0 = PInt (int T)" and T: "0 < T" and res: "resolves ev e0"
  shows "\<exists>e w. start ev h a items = Inr (e, w) \<and> chunked ev e0 T e w \<and> same_config e0 e \<and>
           (items \<noteq> [] \<longrightarrow> written (last (sinks w)) \<noteq> []) \<and>
           concat (map written (sinks w)) = items"
proof -
  from open_spider_first[OF init_ok(1)[OF init] res, of T] obtain e1 and w1 :: "'a world" where
    o: "open_spider ev e0 empty_world = Inr (e1, w1)" "chunked ev e0 T e1 w1" "same_config e0 e1"
       "concat (map written (sinks w1)) = []"
    by blast
  from add_items_chunked[OF res ipc T o(2,3), of items] obtain e w where
    r: "add_items ev items e1 w1 = Inr (e, w)" "chunked ev e0 T e w" "same_config e0 e"
       "items \<noteq> [] \<longrightarrow> written (last (sinks w)) \<noteq> []"
       "concat (map written (sinks w)) = concat (map written (sinks w1)) @ items"
    by blast
  show ?thesis using start_eq[OF init o(1), of items] r o(4) by simp
qed

lemma start_open_last:
  assumes init: "snd (ChunkedFeedExporter_init ev h a) = Inr e0" and res: "resolves ev e0"
  shows "\<exists>e w. start ev h a items = Inr (e, w) \<and> open_last e w \<and> same_config e0 e \<and>
           concat (map written (sinks w)) = items"
proof -
  from open_spider_first[OF init_ok(1)[OF init] res, of 0] obtain e1 and w1 :: "'a world" where
    o: "open_spider ev e0 empty_world = Inr (e1, w1)" "open_last e1 w1" "same_config e0 e1"
       "concat (map written (sinks w1)) = []"
    by blast
  from add_items_open_last[OF res o(2,3), of items] obtain e w where
    r: "add_items ev items e1 w1 = Inr (e, w)" "open_last e w" "same_config e0 e"
       "concat (map written (sinks w)) = concat (map written (sinks w1)) @ items"
    by blast
  show ?thesis using start_eq[OF init o(1), of items] r o(4) by simp
qed

lemma stop_open_last:
  assumes "open_last e w"
  shows "\<exists>w'. stop e w = Inr (e, w') \<and> map written (sinks w') = map written (sinks w) \<and>
           map address (sinks w') = map address (sinks w) \<and> list_all is_closed (sinks w') = list_all is_closed (butlast (sinks w))"
proof -
  from assms obtain s ds cur where
    h: "slot e = Some s" "sinks w = ds @ [cur]" "handle s = length ds" "\<not> is_closed cur"
    unfolding open_last_def by blast
  show ?thesis
    using h by (simp add: stop_def close_spider_current[OF h])
qed

subsection \<open>The runs of the tests\<close>

lemma resolve_test:
  "fst (resolve_uri test_env ((test_exporter n)\<lparr>chunk_number := c\<rparr>) t) =
     Inr (''export_'' @ fmt_int True 2 c @ ''.json'')"
  apply (simp add: resolve_uri_def get_uri_parameters_def test_env_def test_exporter_def
       py_percent_def emit_def digit_val_def)
  apply (simp only: numeral_2_eq_2)
  done

lemma resolves_test: "resolves test_env (test_exporter n)"
  unfolding resolves_def using resolve_test by blast

lemma map_length_written:
  "map (\<lambda>s. length (written s)) xs = map length (map written xs)"
  by (simp add: comp_def)

lemma map_Inr_address:
  "map (\<lambda>s. Inr (address s)) xs = map Inr (map address xs)"
  by (simp add: comp_def)

lemma run_chunked:
  assumes init: "snd (ChunkedFeedExporter_init ev h a) = Inr e0"
    and ipc: "items_per_chunk e0 = PInt (int t)" and t: "0 < t" and res: "resolves ev e0"
  shows "\<exists>e w m r. run ev h a items = Inr (e, w) \<and> length (sinks w) = m + 1 \<and>
           length items = m * t + r \<and> r \<le> t \<and> (items \<noteq> [] \<longrightarrow> 1 \<le> r) \<and>
           map (\<lambda>s. length (written s)) (sinks w) = replicate m t @ [r] \<and>
           chunk_number e = int (m + 1) \<and>
           map (\<lambda>s. Inr (address s)) (sinks w) =
             map (\<lambda>i. fst (resolve_uri ev (e0\<lparr>chunk_number := int i + 1\<rparr>) i)) [0..<m + 1]"
proof -
  from start_chunked[OF init ipc t res, of items] obtain e w where
    s: "start ev h a items = Inr (e, w)" "chunked ev e0 t e w"
       "items \<noteq> [] \<longrightarrow> written (last (sinks w)) \<noteq> []"
       "concat (map written (sinks w)) = items"
    by blast
  from stop_open_last[OF chunked_open_last[OF s(2)]] obtain w' where
    w': "stop e w = Inr (e, w')" "map written (sinks w') = map written (sinks w)"
        "map address (sinks w') = map address (sinks w)"
    by blast
  define m where "m = length (sinks w) - 1"
  define r where "r = length (written (last (sinks w)))"
  have r1: "items \<noteq> [] \<longrightarrow> 1 \<le> r" using s(3) by (simp add: r_def Suc_le_eq)
  have r2: "r \<le> t" using chunked_sizes(2)[OF s(2)] by (simp add: r_def)
  have n: "length items = m * t + r"
    using chunked_sizes(3)[OF s(2)] s(4) by (simp add: m_def r_def)
  have len: "length (sinks w) = m + 1"
    using chunked_sizes(5)[OF s(2)] by (simp add: m_def)
  have sz: "map (\<lambda>s. length (written s)) (sinks w) = replicate m t @ [r]"
    using chunked_sizes(1)[OF s(2)] by (simp add: m_def r_def)
  have sz': "map (\<lambda>s. length (written s)) (sinks w') = replicate m t @ [r]"
    using sz by (simp only: map_length_written w'(2))
  have "length (map written (sinks w')) = length (map written (sinks w))"
    by (simp only: w'(2))
  then have len': "length (sinks w') = m + 1"
    using len by simp
  have cn: "chunk_number e = int (m + 1)"
    using chunked_sizes(4)[OF s(2)] len by simp
  have ad: "map (\<lambda>s. Inr (address s)) (sinks w') =
             map (\<lambda>i. fst (resolve_uri ev (e0\<lparr>chunk_number := int i + 1\<rparr>) i)) [0..<m + 1]"
    using chunked_sizes(6)[OF s(2)] len by (simp only: map_Inr_address w'(3))
  have run: "run ev h a items = Inr (e, w')" using s(1) w'(1) by (simp add: run_def)
  show ?thesis
    apply (rule exI[of _ e], rule exI[of _ w'], rule exI[of _ m], rule exI[of _ r])
    using run len' n r2 r1 sz' cn ad by (intro conjI)
qed

lemma run_test_empty:
  "run test_env [test_settings (PInt 1)] 0 ([] :: nat list) =
     Inr ((test_exporter (PInt 1))\<lparr>slot := Some \<lparr>uri = ''export_01.json'', itemcount = 0, handle = 0\<rparr>\<rparr>,
          \<lparr>sinks = [\<lparr>address = ''export_01.json'', sink_format = PStr ''json'',
                       written = [], is_closed = True\<rparr>],
            ticks = 1\<rparr>)"
  by code_simp

lemma fmt_int_2: "fmt_int True 2 1 = ''01''" "fmt_int True 2 2 = ''02''" "fmt_int True 2 3 = ''03''"
  by code_simp+

lemma get_uri_parameters_timestamp:
  "fst (get_uri_parameters ev e ps t) ''timestamp'' =
     Some (PStr (strftime (clock ev t) ''%Y-%m-%d-%H'')) \<and>
   snd (get_uri_parameters ev e ps t) = Suc t"
  by (simp add: get_uri_parameters_def)

lemma get_from_settings_or_environ_eq:
  "get_from_settings_or_environ ev st name dflt =
     (case st name of
        None \<Rightarrow> (case environ ev name of None \<Rightarrow> PStr dflt | Some s \<Rightarrow> PStr s)
      | Some v \<Rightarrow>
          (if v = PNone
           then (case environ ev name of None \<Rightarrow> PStr dflt | Some s \<Rightarrow> PStr s)
           else v))"
  by (simp add: get_from_settings_or_environ_def settings_get_def split: option.splits)

lemma init_job:
  "snd (ChunkedFeedExporter_init job_env [job_settings] 0) = Inr job_exporter"
  by (simp add: init_eq settings_get_def settings_set_def get_from_settings_or_environ_def
       DEFAULT_TIMESTAMP_FORMAT_def test_settings_def test_exporter_def test_env_def Let_def
       job_settings_def job_env_def job_exporter_def)

lemma resolves_job: "resolves job_env job_exporter"
  unfolding resolves_def
  by (simp add: resolve_uri_def get_uri_parameters_def test_env_def test_exporter_def
       py_percent_def emit_def digit_val_def job_env_def job_exporter_def)

section \<open>The claims\<close>

subsection \<open>C5: the configuration gate\<close>

text \<open>
  C5 says that construction fails with \<^verbatim>\<open>NotConfigured\<close> whenever the
  items-per-chunk setting is unset, zero or negative, or the template or the format is
  empty or unset. The guard of line 95 is Python's truth test, which a negative number
  passes: with \<^verbatim>\<open>CHUNKED_FEED_ITEMS_PER_CHUNK = -1\<close> and a valid template and format
  the constructor returns an exporter.
\<close>

theorem negative_items_per_chunk_counterexample:
  "snd (ChunkedFeedExporter_init test_env [test_settings (PInt (- 1))] 0) =
     Inr (test_exporter (PInt (- 1)))"
  by (simp add: init_test)

text \<open>
  C5, as amended: construction fails with \<^verbatim>\<open>NotConfigured\<close> whenever the value of
  the items-per-chunk setting, of the address template or of the sink format is
  missing or false in Python's sense (\<^verbatim>\<open>None\<close>, 0, the empty string), whatever the
  other settings are; then \<^verbatim>\<open>start\<close> and the whole run end with that error, before
  any sink is opened.
\<close>

theorem configuration_gate:
  assumes "\<not> truthy (settings_get (h ! a) ''CHUNKED_FEED_ITEMS_PER_CHUNK'' PNone) \<or>
           \<not> truthy (settings_get (h ! a) ''CHUNKED_FEED_URI'' PNone) \<or>
           \<not> truthy (settings_get (h ! a) ''CHUNKED_FEED_FORMAT'' PNone)"
  shows "snd (ChunkedFeedExporter_init ev h a) = Inl NotConfigured \<and>
         start ev h a items = Inl NotConfigured \<and> run ev h a items = Inl NotConfigured"
proof -
  have "snd (ChunkedFeedExporter_init ev h a) = Inl NotConfigured"
    using assms by (auto simp add: init_eq Let_def)
  then show ?thesis by (simp add: start_fails run_fails)
qed

theorem configuration_gate_witness:
  "\<not> truthy (settings_get ([test_settings (PInt 0)] ! 0) ''CHUNKED_FEED_ITEMS_PER_CHUNK'' PNone) \<and>
   snd (ChunkedFeedExporter_init test_env [test_settings (PInt 0)] 0) = Inl NotConfigured \<and>
   run test_env [test_settings (PInt 0)] 0 [1::nat, 2] = Inl NotConfigured"
proof -
  have h: "\<not> truthy (settings_get ([test_settings (PInt 0)] ! 0) ''CHUNKED_FEED_ITEMS_PER_CHUNK'' PNone)"
    by (simp add: settings_get_def test_settings_def)
  from configuration_gate[of "[test_settings (PInt 0)]" 0 test_env "[1::nat, 2]"] h
  show ?thesis by blast
qed

subsection \<open>C10: the caller's settings\<close>

text \<open>
  C10: constructing the exporter does not change the caller's settings object. The
  constructor works on a deep copy: the object at the caller's address, and every other
  object the store held, is as before, whether the constructor returns or raises; the
  overrides of \<^verbatim>\<open>FEED_URI\<close> and \<^verbatim>\<open>FEED_FORMAT\<close> are made in the copy, at another
  address, which the exporter keeps.
\<close>

theorem constructor_keeps_settings:
  assumes "a < length h"
  shows "fst (ChunkedFeedExporter_init ev h a) ! a = h ! a \<and>
         take (length h) (fst (ChunkedFeedExporter_init ev h a)) = h \<and>
         (\<forall>e. snd (ChunkedFeedExporter_init ev h a) = Inr e \<longrightarrow>
            settings e \<noteq> a \<and>
            fst (ChunkedFeedExporter_init ev h a) ! settings e =
              (h ! a)(''FEED_URI'' \<mapsto> urifmt e, ''FEED_FORMAT'' \<mapsto> format e))"
  using assms by (auto simp add: init_eq Let_def nth_append settings_set_def)

theorem constructor_keeps_settings_witness:
  "(0::nat) < length [test_settings (PInt 2)] \<and>
   fst (ChunkedFeedExporter_init test_env [test_settings (PInt 2)] 0) ! 0 = test_settings (PInt 2) \<and>
   test_settings (PInt 2) ''FEED_URI'' = None \<and>
   snd (ChunkedFeedExporter_init test_env [test_settings (PInt 2)] 0) = Inr (test_exporter (PInt 2)) \<and>
   (fst (ChunkedFeedExporter_init test_env [test_settings (PInt 2)] 0) ! 1) ''FEED_URI'' =
     Some (PStr ''export_%(chunk_number)02d.json'')"
proof -
  have h: "(0::nat) < length [test_settings (PInt 2)]" by simp
  have e: "snd (ChunkedFeedExporter_init test_env [test_settings (PInt 2)] 0) =
             Inr (test_exporter (PInt 2))"
    by (simp add: init_test)
  have n: "test_settings (PInt 2) ''FEED_URI'' = None"
    by (simp add: test_settings_def)
  from constructor_keeps_settings[OF h, of test_env] e
  have "fst (ChunkedFeedExporter_init test_env [test_settings (PInt 2)] 0) ! 0 = test_settings (PInt 2)"
    and "fst (ChunkedFeedExporter_init test_env [test_settings (PInt 2)] 0) !
           settings (test_exporter (PInt 2)) =
         (test_settings (PInt 2))(''FEED_URI'' \<mapsto> urifmt (test_exporter (PInt 2)),
            ''FEED_FORMAT'' \<mapsto> format (test_exporter (PInt 2)))"
    by simp_all
  then show ?thesis using h e n by (simp add: test_exporter_def)
qed

subsection \<open>C1: the partition property\<close>

text \<open>
  C1 says that for every record count \<open>n\<close> and every threshold \<open>t > 0\<close> a run yields
  exactly \<open>ceil (n / t)\<close> chunks. With no record the run still opens, and closes, the
  first sink (\<^verbatim>\<open>start\<close> calls \<^verbatim>\<open>open_spider\<close>; the test \<^verbatim>\<open>test_items_0\<close>
  notes that one file is always created): one chunk, where \<open>ceil (0 / 1)\<close> is 0.
\<close>

theorem zero_records_one_chunk_counterexample:
  "run test_env [test_settings (PInt 1)] 0 ([] :: nat list) =
     Inr ((test_exporter (PInt 1))\<lparr>slot := Some \<lparr>uri = ''export_01.json'', itemcount = 0, handle = 0\<rparr>\<rparr>,
          \<lparr>sinks = [\<lparr>address = ''export_01.json'', sink_format = PStr ''json'',
                       written = [], is_closed = True\<rparr>],
            ticks = 1\<rparr>) \<and>
   ceil_div (length ([] :: nat list)) 1 = 0"
  by (simp add: run_test_empty ceil_div_def)

text \<open>
  C1, as amended: for every threshold \<open>t > 0\<close> and every run of \<open>n \<ge> 1\<close> records whose
  address template resolves, starting the exporter, submitting the records and stopping
  returns with exactly \<open>ceil (n / t)\<close> chunks; each chunk but the last holds exactly \<open>t\<close>
  records and the last holds \<open>n - t * (ceil (n / t) - 1)\<close> records, a number between 1 and
  \<open>t\<close>.
\<close>

theorem partition_property:
  assumes "snd (ChunkedFeedExporter_init ev h a) = Inr e0"
    and "items_per_chunk e0 = PInt (int t)" and "0 < t"
    and "resolves ev e0"
    and "items \<noteq> []"
  shows "\<exists>e w. run ev h a items = Inr (e, w) \<and>
           length (sinks w) = ceil_div (length items) t \<and>
           map (\<lambda>s. length (written s)) (sinks w) =
             replicate (ceil_div (length items) t - 1) t @
               [length items - t * (ceil_div (length items) t - 1)] \<and>
           1 \<le> length items - t * (ceil_div (length items) t - 1) \<and>
           length items - t * (ceil_div (length items) t - 1) \<le> t"
proof -
  from run_chunked[OF assms(1-4), of items] assms(5) obtain e w m r where
    s: "run ev h a items = Inr (e, w)" "length (sinks w) = m + 1"
       "length items = m * t + r" "r \<le> t" "1 \<le> r"
       "map (\<lambda>s. length (written s)) (sinks w) = replicate m t @ [r]"
    by blast
  have k: "ceil_div (length items) t = m + 1" by (rule ceil_div_eq[OF s(3) s(5) s(4)])
  have rr: "length items - t * (ceil_div (length items) t - 1) = r"
    using s(3) k by (simp add: mult.commute)
  show ?thesis using s k rr by simp
qed

theorem partition_property_witness:
  "snd (ChunkedFeedExporter_init test_env [test_settings (PInt 2)] 0) = Inr (test_exporter (PInt 2)) \<and>
   items_per_chunk (test_exporter (PInt 2)) = PInt (int 2) \<and> (0::nat) < 2 \<and>
   resolves test_env (test_exporter (PInt 2)) \<and> [1, 2, 3, 4, 5 :: nat] \<noteq> [] \<and>
   (\<exists>e w. run test_env [test_settings (PInt 2)] 0 [1, 2, 3, 4, 5 :: nat] = Inr (e, w) \<and>
      length (sinks w) = 3 \<and> map (\<lambda>s. length (written s)) (sinks w) = [2, 2, 1])"
proof -
  have i: "snd (ChunkedFeedExporter_init test_env [test_settings (PInt 2)] 0) =
             Inr (test_exporter (PInt 2))"
    by (simp add: init_test)
  have p: "items_per_chunk (test_exporter (PInt 2)) = PInt (int 2)"
    by (simp add: test_exporter_def)
  have z: "(0::nat) < 2" by simp
  have ne: "[1, 2, 3, 4, 5 :: nat] \<noteq> []" by simp
  have l: "length [1, 2, 3, 4, 5 :: nat] = 5" by simp
  have c: "ceil_div 5 2 = 3" by (simp add: ceil_div_def)
  have rep: "replicate (3 - 1) (2::nat) @ [5 - 2 * (3 - 1)] = [2, 2, 1]" by code_simp
  from partition_property[OF i p z resolves_test ne] obtain e w where
    "run test_env [test_settings (PInt 2)] 0 [1, 2, 3, 4, 5 :: nat] = Inr (e, w)"
    "length (sinks w) = ceil_div (length [1, 2, 3, 4, 5 :: nat]) 2"
    "map (\<lambda>s. length (written s)) (sinks w) =
       replicate (ceil_div (length [1, 2, 3, 4, 5 :: nat]) 2 - 1) 2 @
         [length [1, 2, 3, 4, 5 :: nat] - 2 * (ceil_div (length [1, 2, 3, 4, 5 :: nat]) 2 - 1)]"
    by blast
  then have "run test_env [test_settings (PInt 2)] 0 [1, 2, 3, 4, 5 :: nat] = Inr (e, w) \<and>
      length (sinks w) = 3 \<and> map (\<lambda>s. length (written s)) (sinks w) = [2, 2, 1]"
    unfolding l c rep by (intro conjI)
  then have "\<exists>e w. run test_env [test_settings (PInt 2)] 0 [1, 2, 3, 4, 5 :: nat] = Inr (e, w) \<and>
      length (sinks w) = 3 \<and> map (\<lambda>s. length (written s)) (sinks w) = [2, 2, 1]"
    by (intro exI)
  with i p z resolves_test ne show ?thesis by (intro conjI)
qed

subsection \<open>C2: no record is lost or duplicated\<close>

text \<open>
  C2: for every sequence of records, and every value of the threshold that the
  constructor accepts, a run whose address template resolves returns, and the records
  written to the first, the second, ..., the last chunk, one after the other, are the
  submitted sequence: every record is in exactly one chunk, once, in submission order.
\<close>

theorem no_cross_chunk_leakage:
  assumes "snd (ChunkedFeedExporter_init ev h a) = Inr e0" and "resolves ev e0"
  shows "\<exists>e w. run ev h a items = Inr (e, w) \<and> concat (map written (sinks w)) = items"
proof -
  from start_open_last[OF assms, of items] obtain e w where
    s: "start ev h a items = Inr (e, w)" "open_last e w" "concat (map written (sinks w)) = items"
    by blast
  from stop_open_last[OF s(2)] obtain w' where
    w': "stop e w = Inr (e, w')" "map written (sinks w') = map written (sinks w)"
    by blast
  have "run ev h a items = Inr (e, w')" using s(1) w'(1) by (simp add: run_def)
  moreover have "concat (map written (sinks w')) = items" using s(3) by (simp only: w'(2))
  ultimately show ?thesis by blast
qed

theorem no_cross_chunk_leakage_witness:
  "snd (ChunkedFeedExporter_init test_env [test_settings (PInt 2)] 0) = Inr (test_exporter (PInt 2)) \<and>
   resolves test_env (test_exporter (PInt 2)) \<and>
   (\<exists>e w. run test_env [test_settings (PInt 2)] 0 [1, 2, 3, 4, 5 :: nat] = Inr (e, w) \<and>
      concat (map written (sinks w)) = [1, 2, 3, 4, 5])"
proof -
  have i: "snd (ChunkedFeedExporter_init test_env [test_settings (PInt 2)] 0) =
             Inr (test_exporter (PInt 2))"
    by (simp add: init_test)
  from no_cross_chunk_leakage[OF i resolves_test, of "[1, 2, 3, 4, 5 :: nat]"] i resolves_test
  show ?thesis by (intro conjI)
qed

subsection \<open>C3: the chunk numbers\<close>

text \<open>
  C3 says that the chunk numbers assigned across a run of \<open>n\<close> records are exactly
  \<open>1, ..., ceil (n / t)\<close>. A run without records assigns the chunk number 1 to the
  sink it opens at the start, while \<open>1, ..., ceil (0 / 1)\<close> is the empty sequence.
\<close>

theorem zero_records_chunk_number_counterexample:
  "(case run test_env [test_settings (PInt 1)] 0 ([] :: nat list) of
      Inl err \<Rightarrow> [] | Inr (e, w) \<Rightarrow> map address (sinks w)) = [''export_01.json''] \<and>
   (case run test_env [test_settings (PInt 1)] 0 ([] :: nat list) of
      Inl err \<Rightarrow> 0 | Inr (e, w) \<Rightarrow> chunk_number e) = 1 \<and>
   [1..<Suc (ceil_div (length ([] :: nat list)) 1)] = []"
  by (simp add: run_test_empty ceil_div_def test_exporter_def)

text \<open>
  C3, as amended: for every threshold \<open>t > 0\<close> and every run of \<open>n\<close> records whose
  address template resolves, the run opens \<open>max 1 (ceil (n / t))\<close> sinks, the i-th of
  them (counting from 1) at the address that the template yields for the chunk number
  \<open>i\<close>, and the chunk number of the exporter ends at \<open>max 1 (ceil (n / t))\<close>: the numbers
  assigned are \<open>1, 2, ..., max 1 (ceil (n / t))\<close>, without gap or reuse.
\<close>

theorem chunk_numbering:
  assumes "snd (ChunkedFeedExporter_init ev h a) = Inr e0"
    and "items_per_chunk e0 = PInt (int t)" and "0 < t"
    and "resolves ev e0"
  shows "\<exists>e w. run ev h a items = Inr (e, w) \<and>
           length (sinks w) = max 1 (ceil_div (length items) t) \<and>
           chunk_number e = int (max 1 (ceil_div (length items) t)) \<and>
           map (\<lambda>s. Inr (address s)) (sinks w) =
             map (\<lambda>i. fst (resolve_uri ev (e0\<lparr>chunk_number := int i + 1\<rparr>) i))
               [0..<max 1 (ceil_div (length items) t)]"
proof -
  from run_chunked[OF assms(1-4), of items] obtain e w m r where
    s: "run ev h a items = Inr (e, w)" "length (sinks w) = m + 1"
       "length items = m * t + r" "r \<le> t" "items \<noteq> [] \<longrightarrow> 1 \<le> r"
       "chunk_number e = int (m + 1)"
       "map (\<lambda>s. Inr (address s)) (sinks w) =
             map (\<lambda>i. fst (resolve_uri ev (e0\<lparr>chunk_number := int i + 1\<rparr>) i)) [0..<m + 1]"
    by blast
  have k: "max 1 (ceil_div (length items) t) = m + 1"
  proof (cases "items = []")
    case True
    with s(3) assms(3) have "m = 0" by simp
    moreover have "ceil_div 0 t = 0" using assms(3) by (simp add: ceil_div_def)
    ultimately show ?thesis using True by simp
  next
    case False
    with s(5) have "1 \<le> r" by simp
    from ceil_div_eq[OF s(3) this s(4)] show ?thesis by simp
  qed
  show ?thesis using s(1,2,6,7) by (simp only: k) blast
qed

theorem chunk_numbering_witness:
  "snd (ChunkedFeedExporter_init test_env [test_settings (PInt 2)] 0) = Inr (test_exporter (PInt 2)) \<and>
   items_per_chunk (test_exporter (PInt 2)) = PInt (int 2) \<and> (0::nat) < 2 \<and>
   resolves test_env (test_exporter (PInt 2)) \<and>
   (\<exists>e w. run test_env [test_settings (PInt 2)] 0 [1, 2, 3, 4, 5 :: nat] = Inr (e, w) \<and>
      length (sinks w) = 3 \<and> chunk_number e = 3 \<and>
      map address (sinks w) = [''export_01.json'', ''export_02.json'', ''export_03.json''])"
proof -
  have i: "snd (ChunkedFeedExporter_init test_env [test_settings (PInt 2)] 0) =
             Inr (test_exporter (PInt 2))"
    by (simp add: init_test)
  have p: "items_per_chunk (test_exporter (PInt 2)) = PInt (int 2)"
    by (simp add: test_exporter_def)
  have z: "(0::nat) < 2" by simp
  have k: "max 1 (ceil_div (length [1, 2, 3, 4, 5 :: nat]) 2) = 3" by (simp add: ceil_div_def)
  have u: "[0..<3] = [0, 1, 2]" by code_simp
  from chunk_numbering[OF i p z resolves_test, of "[1, 2, 3, 4, 5 :: nat]"] obtain e w where
    r: "run test_env [test_settings (PInt 2)] 0 [1, 2, 3, 4, 5 :: nat] = Inr (e, w)"
       "length (sinks w) = 3" "chunk_number e = int 3"
       "map (\<lambda>s. Inr (address s)) (sinks w) =
          map (\<lambda>i. fst (resolve_uri test_env ((test_exporter (PInt 2))\<lparr>chunk_number := int i + 1\<rparr>) i))
            [0..<3]"
    unfolding k by blast
  have "map Inr (map address (sinks w)) =
          (map Inr [''export_01.json'', ''export_02.json'', ''export_03.json''] :: (error + string) list)"
    using r(4) by (simp add: map_Inr_address resolve_test u fmt_int_2)
  then have a: "map address (sinks w) = [''export_01.json'', ''export_02.json'', ''export_03.json'']"
    by (simp only: inj_map_eq_map[OF inj_Inr])
  have c: "chunk_number e = 3" using r(3) by simp
  have "\<exists>e w. run test_env [test_settings (PInt 2)] 0 [1, 2, 3, 4, 5 :: nat] = Inr (e, w) \<and>
      length (sinks w) = 3 \<and> chunk_number e = 3 \<and>
      map address (sinks w) = [''export_01.json'', ''export_02.json'', ''export_03.json'']"
    using r(1,2) c a by (intro exI conjI)
  with i p z resolves_test show ?thesis by (intro conjI)
qed

subsection \<open>C4: rotation happens before the triggering record is written\<close>



subsection \<open>C6: the timestamp parameter\<close>

text \<open>
  C6 says that the timestamp parameter is the current UTC time rendered with the
  configured timestamp format, as the docstring of the class does. The constructor
  stores the setting in \<^verbatim>\<open>_timestamp_format\<close>, but line 75 renders the time with the
  literal \<^verbatim>\<open>"%Y-%m-%d-%H"\<close>: with \<^verbatim>\<open>CHUNKED_FEED_TIMESTAMP_FORMAT = '%Y'\<close> the
  parameter is \<^verbatim>\<open>2014-03-07-15\<close> at a time that the configured format renders as
  \<^verbatim>\<open>2014\<close>.
\<close>

theorem timestamp_format_ignored:
  "snd (ChunkedFeedExporter_init test_env
          [(test_settings (PInt 2))(''CHUNKED_FEED_TIMESTAMP_FORMAT'' \<mapsto> PStr ''%Y'')] 0) =
     Inr ((test_exporter (PInt 2))\<lparr>timestamp_format := PStr ''%Y''\<rparr>) \<and>
   fst (get_uri_parameters test_env ((test_exporter (PInt 2))\<lparr>timestamp_format := PStr ''%Y''\<rparr>)
          Map.empty 0) ''timestamp'' = Some (PStr ''2014-03-07-15'') \<and>
   strftime (clock test_env 0) ''%Y'' = ''2014''"
  by code_simp

subsection \<open>C7: the resolution is deterministic\<close>

text \<open>
  C7: the parameter mapping and the resolved address depend on nothing but the
  template, the chunk number, the job and project ids, the clock reading, the mapping
  handed in and the operator \<^verbatim>\<open>%\<close>: two resolutions that agree on these, in
  whatever state the exporters are otherwise, build the same mapping and produce the same
  address or the same exception.
\<close>

theorem resolution_deterministic:
  assumes "urifmt e1 = urifmt e2" and "chunk_number e1 = chunk_number e2"
    and "scrapy_job e1 = scrapy_job e2" and "scrapy_project_id e1 = scrapy_project_id e2"
    and "clock ev1 t1 = clock ev2 t2" and "percent ev1 = percent ev2"
    and "base_params ev1 = base_params ev2"
  shows "fst (get_uri_parameters ev1 e1 ps t1) = fst (get_uri_parameters ev2 e2 ps t2) \<and>
         fst (resolve_uri ev1 e1 t1) = fst (resolve_uri ev2 e2 t2)"
  using assms by (simp add: resolve_uri_def get_uri_parameters_def)

theorem resolution_deterministic_witness:
  "urifmt (test_exporter (PInt 2)) =
     urifmt ((test_exporter (PInt 7))\<lparr>timestamp_format := PStr ''%Y'',
               slot := Some \<lparr>uri = ''export_01.json'', itemcount = 4, handle = 0\<rparr>\<rparr>) \<and>
   clock test_env 0 = clock test_env 5 \<and>
   fst (resolve_uri test_env (test_exporter (PInt 2)) 0) = Inr ''export_01.json'' \<and>
   fst (resolve_uri test_env
          ((test_exporter (PInt 7))\<lparr>timestamp_format := PStr ''%Y'',
             slot := Some \<lparr>uri = ''export_01.json'', itemcount = 4, handle = 0\<rparr>\<rparr>) 5) =
     Inr ''export_01.json''"
proof -
  let ?e1 = "test_exporter (PInt 2)"
  let ?e2 = "(test_exporter (PInt 7))\<lparr>timestamp_format := PStr ''%Y'',
               slot := Some \<lparr>uri = ''export_01.json'', itemcount = 4, handle = 0\<rparr>\<rparr>"
  have a: "urifmt ?e1 = urifmt ?e2" "chunk_number ?e1 = chunk_number ?e2"
    "scrapy_job ?e1 = scrapy_job ?e2" "scrapy_project_id ?e1 = scrapy_project_id ?e2"
    by (simp_all add: test_exporter_def)
  have c: "clock test_env 0 = clock test_env 5" by (simp add: test_env_def)
  have r: "fst (resolve_uri test_env ?e1 0) = Inr ''export_01.json''" by code_simp
  from resolution_deterministic[OF a c refl refl]
  have "fst (resolve_uri test_env ?e1 0) = fst (resolve_uri test_env ?e2 5)" by (rule conjunct2)
  with r have "fst (resolve_uri test_env ?e2 5) = Inr ''export_01.json''" by simp
  with a(1) c r show ?thesis by (intro conjI)
qed

subsection \<open>C8: job id and project id\<close>

text \<open>
  C8: the job, the project and the project id are sourced once, at construction: each
  is the value of the setting of that name (\<^verbatim>\<open>SCRAPY_JOB\<close>, \<^verbatim>\<open>SCRAPY_PROJECT\<close>,
  \<^verbatim>\<open>SCRAPY_PROJECT_ID\<close>) in the settings handed to the constructor if there is one
  other than \<^verbatim>\<open>None\<close>, else the environment variable of that name if it is set, else
  the sentinel \<^verbatim>\<open>nojob\<close>, \<^verbatim>\<open>noproject\<close> or \<^verbatim>\<open>noprojectid\<close>. After any number
  of submitted records the exporter holds these same values, and every parameter mapping
  it builds carries the job and the project id of the construction.
\<close>

theorem job_and_project_ids:
  assumes "start ev h a items = Inr (e, w)"
  shows "scrapy_job e =
           (case (h ! a) ''SCRAPY_JOB'' of
              None \<Rightarrow> (case environ ev ''SCRAPY_JOB'' of
                          None \<Rightarrow> PStr ''nojob'' | Some s \<Rightarrow> PStr s)
            | Some v \<Rightarrow>
                (if v = PNone
                 then (case environ ev ''SCRAPY_JOB'' of
                         None \<Rightarrow> PStr ''nojob'' | Some s \<Rightarrow> PStr s)
                 else v)) \<and>
         scrapy_project e =
           (case (h ! a) ''SCRAPY_PROJECT'' of
              None \<Rightarrow> (case environ ev ''SCRAPY_PROJECT'' of
                          None \<Rightarrow> PStr ''noproject'' | Some s \<Rightarrow> PStr s)
            | Some v \<Rightarrow>
                (if v = PNone
                 then (case environ ev ''SCRAPY_PROJECT'' of
                         None \<Rightarrow> PStr ''noproject'' | Some s \<Rightarrow> PStr s)
                 else v)) \<and>
         scrapy_project_id e =
           (case (h ! a) ''SCRAPY_PROJECT_ID'' of
              None \<Rightarrow> (case environ ev ''SCRAPY_PROJECT_ID'' of
                          None \<Rightarrow> PStr ''noprojectid'' | Some s \<Rightarrow> PStr s)
            | Some v \<Rightarrow>
                (if v = PNone
                 then (case environ ev ''SCRAPY_PROJECT_ID'' of
                         None \<Rightarrow> PStr ''noprojectid'' | Some s \<Rightarrow> PStr s)
                 else v)) \<and>
         fst (get_uri_parameters ev e ps t) ''scrapy_job'' = Some (scrapy_job e) \<and>
         fst (get_uri_parameters ev e ps t) ''scrapy_project_id'' = Some (scrapy_project_id e)"
proof -
  from assms obtain e0 where i: "snd (ChunkedFeedExporter_init ev h a) = Inr e0"
    by (auto simp add: start_def split: sum.splits)
  from assms i obtain e1 and w1 :: "'a world" where
    o: "open_spider ev e0 empty_world = Inr (e1, w1)" and r: "add_items ev items e1 w1 = Inr (e, w)"
    by (auto simp add: start_def split: sum.splits)
  have "same_config e0 e1"
    using o by (auto simp add: open_spider_eq same_config_update same_config_refl split: sum.splits)
  from add_items_frame[OF r this] have sc: "same_config e0 e" .
  have j: "scrapy_job e = get_from_settings_or_environ ev (h ! a) ''SCRAPY_JOB'' ''nojob''"
    and p: "scrapy_project e =
              get_from_settings_or_environ ev (h ! a) ''SCRAPY_PROJECT'' ''noproject''"
    and d: "scrapy_project_id e =
              get_from_settings_or_environ ev (h ! a) ''SCRAPY_PROJECT_ID'' ''noprojectid''"
    using same_config_fields[OF sc] init_ok(8,9,10)[OF i] by simp_all
  have g: "fst (get_uri_parameters ev e ps t) ''scrapy_job'' = Some (scrapy_job e)"
    "fst (get_uri_parameters ev e ps t) ''scrapy_project_id'' = Some (scrapy_project_id e)"
    by (simp_all add: get_uri_parameters_def)
  have j': "scrapy_job e =
           (case (h ! a) ''SCRAPY_JOB'' of
              None \<Rightarrow> (case environ ev ''SCRAPY_JOB'' of
                          None \<Rightarrow> PStr ''nojob'' | Some s \<Rightarrow> PStr s)
            | Some v \<Rightarrow>
                (if v = PNone
                 then (case environ ev ''SCRAPY_JOB'' of
                         None \<Rightarrow> PStr ''nojob'' | Some s \<Rightarrow> PStr s)
                 else v))"
    using j by (simp only: get_from_settings_or_environ_eq)
  have p': "scrapy_project e =
           (case (h ! a) ''SCRAPY_PROJECT'' of
              None \<Rightarrow> (case environ ev ''SCRAPY_PROJECT'' of
                          None \<Rightarrow> PStr ''noproject'' | Some s \<Rightarrow> PStr s)
            | Some v \<Rightarrow>
                (if v = PNone
                 then (case environ ev ''SCRAPY_PROJECT'' of
                         None \<Rightarrow> PStr ''noproject'' | Some s \<Rightarrow> PStr s)
                 else v))"
    using p by (simp only: get_from_settings_or_environ_eq)
  have d': "scrapy_project_id e =
           (case (h ! a) ''SCRAPY_PROJECT_ID'' of
              None \<Rightarrow> (case environ ev ''SCRAPY_PROJECT_ID'' of
                          None \<Rightarrow> PStr ''noprojectid'' | Some s \<Rightarrow> PStr s)
            | Some v \<Rightarrow>
                (if v = PNone
                 then (case environ ev ''SCRAPY_PROJECT_ID'' of
                         None \<Rightarrow> PStr ''noprojectid'' | Some s \<Rightarrow> PStr s)
                 else v))"
    using d by (simp only: get_from_settings_or_environ_eq)
  from j' p' d' g show ?thesis by (intro conjI)
qed

theorem job_and_project_ids_witness:
  "job_settings ''SCRAPY_JOB'' = Some (PStr ''12/34/56'') \<and>
   environ job_env ''SCRAPY_JOB'' = Some ''9/9/9'' \<and>
   job_settings ''SCRAPY_PROJECT_ID'' = None \<and>
   environ job_env ''SCRAPY_PROJECT_ID'' = Some ''77'' \<and>
   job_settings ''SCRAPY_PROJECT'' = None \<and>
   environ job_env ''SCRAPY_PROJECT'' = None \<and>
   (\<exists>e w. start job_env [job_settings] 0 [1, 2, 3 :: nat] = Inr (e, w) \<and>
      scrapy_job e = PStr ''12/34/56'' \<and> scrapy_project e = PStr ''noproject'' \<and>
      scrapy_project_id e = PStr ''77'' \<and>
      fst (get_uri_parameters job_env e Map.empty 0) ''scrapy_job'' = Some (PStr ''12/34/56'') \<and>
      fst (get_uri_parameters job_env e Map.empty 0) ''scrapy_project_id'' = Some (PStr ''77''))"
proof -
  have l: "job_settings ''SCRAPY_JOB'' = Some (PStr ''12/34/56'')"
    "environ job_env ''SCRAPY_JOB'' = Some ''9/9/9''"
    "job_settings ''SCRAPY_PROJECT_ID'' = None"
    "environ job_env ''SCRAPY_PROJECT_ID'' = Some ''77''"
    "job_settings ''SCRAPY_PROJECT'' = None"
    "environ job_env ''SCRAPY_PROJECT'' = None"
    by (simp_all add: job_settings_def job_env_def test_settings_def test_env_def)
  from start_open_last[OF init_job resolves_job, of "[1, 2, 3 :: nat]"] obtain e w where
    s: "start job_env [job_settings] 0 [1, 2, 3 :: nat] = Inr (e, w)"
    by blast
  have n: "[job_settings] ! 0 = job_settings" by simp
  note t = job_and_project_ids[OF s, of Map.empty 0, unfolded n l]
  have j: "scrapy_job e = PStr ''12/34/56''" using t by simp
  have p: "scrapy_project e = PStr ''noproject''" using t by simp
  have d: "scrapy_project_id e = PStr ''77''" using t by simp
  have g1: "fst (get_uri_parameters job_env e Map.empty 0) ''scrapy_job'' = Some (PStr ''12/34/56'')"
    using t j by simp
  have g2: "fst (get_uri_parameters job_env e Map.empty 0) ''scrapy_project_id'' = Some (PStr ''77'')"
    using t d by simp
  from s j p d g1 g2
  have "start job_env [job_settings] 0 [1, 2, 3 :: nat] = Inr (e, w) \<and>
      scrapy_job e = PStr ''12/34/56'' \<and> scrapy_project e = PStr ''noproject'' \<and>
      scrapy_project_id e = PStr ''77'' \<and>
      fst (get_uri_parameters job_env e Map.empty 0) ''scrapy_job'' = Some (PStr ''12/34/56'') \<and>
      fst (get_uri_parameters job_env e Map.empty 0) ''scrapy_project_id'' = Some (PStr ''77'')"
    by (intro conjI)
  then have "\<exists>e w. start job_env [job_settings] 0 [1, 2, 3 :: nat] = Inr (e, w) \<and>
      scrapy_job e = PStr ''12/34/56'' \<and> scrapy_project e = PStr ''noproject'' \<and>
      scrapy_project_id e = PStr ''77'' \<and>
      fst (get_uri_parameters job_env e Map.empty 0) ''scrapy_job'' = Some (PStr ''12/34/56'') \<and>
      fst (get_uri_parameters job_env e Map.empty 0) ''scrapy_project_id'' = Some (PStr ''77'')"
    by (intro exI)
  with l show ?thesis by (intro conjI)
qed

subsection \<open>C9: a run without records\<close>

text \<open>
  C9: a run that starts and stops without a record ends in a configuration or
  resolution error before any sink exists, or else has opened exactly one sink, which
  it closes empty; no rotation occurs: the chunk number is still the one of the
  constructor and the clock has been read once.
\<close>

theorem zero_record_run:
  "run ev h a ([] :: 'i list) =
     (case snd (ChunkedFeedExporter_init ev h a) of
        Inl err \<Rightarrow> Inl err
      | Inr e0 \<Rightarrow>
          (case fst (resolve_uri ev e0 0) of
             Inl err \<Rightarrow> Inl err
           | Inr u \<Rightarrow>
               Inr (e0\<lparr>slot := Some \<lparr>uri = u, itemcount = 0, handle = 0\<rparr>\<rparr>,
                    \<lparr>sinks = [\<lparr>address = u, sink_format = format e0, written = [],
                                 is_closed = True\<rparr>],
                      ticks = 1\<rparr> :: 'i world)))"
  by (simp add: run_def start_def open_spider_eq empty_world_def stop_def close_spider_def
        split: sum.splits)

end
